theory Spec2Isabelle
  imports Main "HOL-Library.AList"
begin

section \<open>Data model (types.ts)\<close>

datatype MessageType = USER | SYSTEM | AI

datatype UserRole = HOST | MANAGER | GUEST

record Reaction =
  r_emoji :: string
  r_senderId :: string
  r_senderName :: string

record ChatMessage =
  m_id :: string
  m_senderId :: string
  m_senderName :: string
  m_text :: string
  m_timestamp :: int
  m_type :: MessageType
  m_reactions :: "Reaction list"

record Participant =
  p_id :: string
  p_name :: string
  p_role :: UserRole
  p_isHost :: bool

section \<open>Protocol payloads and links\<close>

text \<open>
  The payload of a \<open>REACTION\<close> message. The action is a string on the wire: the receiver
  compares it with \<open>'remove'\<close> and treats every other value as an addition.
\<close>

record ReactionPayload =
  rp_messageId :: string
  rp_emoji :: string
  rp_senderId :: string
  rp_senderName :: string
  rp_action :: string

text \<open>
  What arrives in a \<open>data\<close> event, by its \<open>type\<close> tag. The reason of \<open>KICKED\<close> may be
  missing. \<open>OtherData\<close> stands for every tag the handler has no branch for.
\<close>

datatype data =
    CHAT ChatMessage
  | SYNC_PARTICIPANTS "Participant list"
  | REACTION ReactionPayload
  | TYPING string bool
  | KICKED "string option"
  | ADMIN_REQUEST string string
  | OtherData string

text \<open>
  A data connection object of the transport: \<open>c_id\<close> is the identity of the object (two
  connections of one peer are two objects), \<open>c_peer\<close> is \<open>conn.peer\<close> and \<open>c_open\<close> is
  \<open>conn.open\<close>.
\<close>

record conn =
  c_id :: nat
  c_peer :: string
  c_open :: bool

text \<open>The peer object held in \<open>peerInstance.current\<close>; its id is unset until the transport assigns one.\<close>

datatype peer = Peer (peer_id: "string option")

text \<open>
  What a handler does to the outside world, in the order it does it: \<open>conn.send(data)\<close>,
  \<open>setTimeout(() => conn.close(), ms)\<close>, \<open>peer.destroy()\<close> and
  \<open>setTimeout(broadcastParticipantList, ms)\<close>.
\<close>

datatype effect =
    Send conn data
  | CloseAfter conn nat
  | PeerDestroy
  | BroadcastParticipantListAfter nat

section \<open>The state of a Room (App.tsx)\<close>

text \<open>
  The React state and the refs of the \<open>Room\<close> component. \<open>connectionsRef\<close> is a JavaScript
  object keyed by peer id: an association list in insertion order, one entry per key.
  React queues a functional state update (\<open>setMessages(prev => ...)\<close>) and applies the
  queued functions in order when it next renders the Room. The functions read their
  argument and the refs only, so each is applied here at the place of its call, and a
  handler is a function from the state to the new state and the effects. The one
  function that also assigns a variable of its handler is that of \<open>handleReaction\<close>.
\<close>

record room =
  roomCode :: string
  peerInstance :: "peer option"
  connectionsRef :: "(string \<times> conn) list"
  bannedPeersRef :: "string set"
  messages :: "ChatMessage list"
  participants :: "Participant list"
  peerId :: string
  isHost :: bool
  kickReason :: "string option"
  typingUsers :: "string set"

definition HOST_PREFIX :: string where
  "HOST_PREFIX = ''gemini-chat-host-''"

definition hostPeerId :: "room \<Rightarrow> string" where
  "hostPeerId st = HOST_PREFIX @ roomCode st"

text \<open>\<open>peerInstance.current?.id\<close>\<close>

definition myId :: "room \<Rightarrow> string option" where
  "myId st = (case peerInstance st of None \<Rightarrow> None | Some p \<Rightarrow> peer_id p)"

text \<open>The test \<open>peerInstance.current?.id === hostPeerId\<close> that every handler uses for "I am the Host".\<close>

definition amHost :: "room \<Rightarrow> bool" where
  "amHost st = (myId st = Some (hostPeerId st))"

definition cleanup :: "room \<Rightarrow> room \<times> effect list" where
  "cleanup st =
     (st\<lparr>peerInstance := None, connectionsRef := [], messages := [], participants := [],
         typingUsers := {}, bannedPeersRef := {}\<rparr>,
      (case peerInstance st of None \<Rightarrow> [] | Some p \<Rightarrow> [PeerDestroy]))"

subsection \<open>Participation logic\<close>

definition defaultName :: "string \<Rightarrow> string" where
  "defaultName i = ''User '' @ take 4 i"

definition addParticipant :: "string \<Rightarrow> UserRole \<Rightarrow> Participant list \<Rightarrow> Participant list" where
  "addParticipant i role prev =
     (case find (\<lambda>p. p_id p = i) prev of
        Some existing \<Rightarrow>
          if p_role existing \<noteq> role
          then map (\<lambda>p. if p_id p = i then p\<lparr>p_role := role, p_isHost := (role = HOST)\<rparr> else p) prev
          else prev
      | None \<Rightarrow>
          prev @ [\<lparr>p_id = i, p_name = (if role = HOST then ''Host'' else defaultName i),
                   p_role = role, p_isHost = (role = HOST)\<rparr>])"

definition removeParticipant :: "string \<Rightarrow> room \<Rightarrow> room" where
  "removeParticipant i st =
     st\<lparr>participants := filter (\<lambda>p. p_id p \<noteq> i) (participants st),
        typingUsers := typingUsers st - {i}\<rparr>"

subsection \<open>Host broadcast logic\<close>

text \<open>The fallback loop of \<open>broadcastParticipantList\<close>: a connected id with no entry gets a default one.\<close>

definition pushMissing :: "Participant list \<Rightarrow> string \<Rightarrow> Participant list" where
  "pushMissing updatedList cid =
     (if find (\<lambda>p. p_id p = cid) updatedList = None
      then updatedList @ [\<lparr>p_id = cid, p_name = defaultName cid, p_role = GUEST, p_isHost = False\<rparr>]
      else updatedList)"

definition updatedList :: "string \<Rightarrow> room \<Rightarrow> Participant list" where
  "updatedList me st =
     (let connectedIds = map fst (connectionsRef st);
          activeIds = me # connectedIds
      in foldl pushMissing (filter (\<lambda>p. p_id p \<in> set activeIds) (participants st)) connectedIds)"

definition broadcastParticipantList :: "room \<Rightarrow> room \<times> effect list" where
  "broadcastParticipantList st =
     (case myId st of
        None \<Rightarrow> (st, [])
      | Some me \<Rightarrow>
          if me = [] then (st, [])
          else (st\<lparr>participants := updatedList me st\<rparr>,
                map (\<lambda>c. Send c (SYNC_PARTICIPANTS (updatedList me st)))
                    (filter c_open (map snd (connectionsRef st)))))"

definition broadcastData :: "room \<Rightarrow> data \<Rightarrow> string option \<Rightarrow> effect list" where
  "broadcastData st d excludePeerId =
     map (\<lambda>c. Send c d)
         (filter (\<lambda>c. c_open c \<and> Some (c_peer c) \<noteq> excludePeerId) (map snd (connectionsRef st)))"

subsection \<open>Admin actions\<close>

definition kickEffects :: "conn option \<Rightarrow> string \<Rightarrow> effect list" where
  "kickEffects co reason =
     (case co of
        None \<Rightarrow> []
      | Some c \<Rightarrow> if c_open c then [Send c (KICKED (Some reason)), CloseAfter c 500] else [])"

definition executeAdminAction :: "room \<Rightarrow> string \<Rightarrow> string \<Rightarrow> room \<times> effect list" where
  "executeAdminAction st action targetId =
     (if \<not> amHost st then (st, [])
      else let co = map_of (connectionsRef st) targetId in
        if action = ''PROMOTE''
        then (st\<lparr>participants :=
                   map (\<lambda>p. if p_id p = targetId then p\<lparr>p_role := MANAGER\<rparr> else p) (participants st)\<rparr>,
              [BroadcastParticipantListAfter 0])
        else if action = ''DEMOTE''
        then (st\<lparr>participants :=
                   map (\<lambda>p. if p_id p = targetId then p\<lparr>p_role := GUEST\<rparr> else p) (participants st)\<rparr>,
              [BroadcastParticipantListAfter 0])
        else if action = ''KICK''
        then (st, kickEffects co ''You have been kicked by an admin.'')
        else if action = ''BAN''
        then (st\<lparr>bannedPeersRef := insert targetId (bannedPeersRef st)\<rparr>,
              kickEffects co ''You have been banned from this room.'')
        else (st, []))"

text \<open>
  In \<open>handleAdminRequest\<close> the name \<open>participants\<close> is the variable of the render in
  which the function was created, not a read of the state when the request arrives: it
  is the parameter \<open>ps\<close>.
\<close>

definition handleAdminRequest ::
  "Participant list \<Rightarrow> room \<Rightarrow> string \<Rightarrow> string \<Rightarrow> string \<Rightarrow> room \<times> effect list" where
  "handleAdminRequest ps st action targetId requesterId =
     (case find (\<lambda>p. p_id p = requesterId) ps of
        None \<Rightarrow> (st, [])
      | Some requester \<Rightarrow>
          if p_role requester \<noteq> MANAGER \<and> p_role requester \<noteq> HOST then (st, [])
          else (case find (\<lambda>p. p_id p = targetId) ps of
                  None \<Rightarrow> (st, [])
                | Some target \<Rightarrow>
                    if p_role target = HOST then (st, [])
                    else if p_role requester = MANAGER \<and> p_role target = MANAGER then (st, [])
                    else executeAdminAction st action targetId))"

subsection \<open>Connection handling\<close>

text \<open>
  \<open>handleDataConnection\<close> installs one of two sets of handlers on the connection: for a
  banned peer on the Host only an \<open>open\<close> handler that rejects; otherwise the handlers
  for \<open>open\<close>, \<open>data\<close> and \<open>close\<close>, after the connection is put into the registry.
\<close>

datatype handlers = Rejecting | Serving

text \<open>
  \<open>handleDataConnection\<close> is called from \<open>connectToHost\<close> and from the \<open>connection\<close>
  listeners of the peer. All of them are created in the effect that sets the peer up,
  whose dependencies are \<open>roomCode\<close>, \<open>cleanup\<close> and \<open>location.state\<close>: it runs when the
  Room mounts, after the first render. So the handlers that the connections carry are
  those of the first render, and the \<open>participants\<close> that their \<open>handleAdminRequest\<close>
  reads is the initial value of \<open>useState<Participant[]>([])\<close>. Everything else they
  read is a ref or the argument of a functional update, which are current.
\<close>

definition participantsAtMount :: "Participant list" where
  "participantsAtMount = []"

definition handleDataConnection :: "room \<Rightarrow> conn \<Rightarrow> room \<times> handlers" where
  "handleDataConnection st c =
     (if amHost st \<and> c_peer c \<in> bannedPeersRef st then (st, Rejecting)
      else (st\<lparr>connectionsRef := AList.update (c_peer c) c (connectionsRef st)\<rparr>, Serving))"

definition on_open :: "handlers \<Rightarrow> room \<Rightarrow> conn \<Rightarrow> room \<times> effect list" where
  "on_open h st c =
     (case h of
        Rejecting \<Rightarrow> (st, [Send c (KICKED (Some ''You are banned from this room.'')), CloseAfter c 500])
      | Serving \<Rightarrow>
          let st1 = st\<lparr>participants :=
                        addParticipant (c_peer c) (if c_peer c = hostPeerId st then HOST else GUEST)
                          (participants st)\<rparr>
          in if amHost st1 then broadcastParticipantList st1 else (st1, []))"

definition sameReaction :: "string \<Rightarrow> string \<Rightarrow> Reaction \<Rightarrow> bool" where
  "sameReaction sid em r = (r_senderId r = sid \<and> r_emoji r = em)"

text \<open>The body of the \<open>map\<close> of the inbound \<open>REACTION\<close> branch.\<close>

definition applyReaction :: "ReactionPayload \<Rightarrow> ChatMessage \<Rightarrow> ChatMessage" where
  "applyReaction rp msg =
     (if m_id msg = rp_messageId rp
      then msg\<lparr>m_reactions :=
                 (if rp_action rp = ''remove''
                  then filter (\<lambda>r. \<not> sameReaction (rp_senderId rp) (rp_emoji rp) r) (m_reactions msg)
                  else if \<not> list_ex (sameReaction (rp_senderId rp) (rp_emoji rp)) (m_reactions msg)
                  then m_reactions msg @
                         [\<lparr>r_emoji = rp_emoji rp, r_senderId = rp_senderId rp,
                           r_senderName = rp_senderName rp\<rparr>]
                  else m_reactions msg)\<rparr>
      else msg)"

definition kickReasonOf :: "string option \<Rightarrow> string" where
  "kickReasonOf reason =
     (case reason of
        None \<Rightarrow> ''You have been kicked.''
      | Some r \<Rightarrow> if r = [] then ''You have been kicked.'' else r)"

definition relay :: "room \<Rightarrow> data \<Rightarrow> conn \<Rightarrow> effect list" where
  "relay st d c = (if amHost st then broadcastData st d (Some (c_peer c)) else [])"

definition on_data :: "handlers \<Rightarrow> room \<Rightarrow> conn \<Rightarrow> data \<Rightarrow> room \<times> effect list" where
  "on_data h st c d =
     (case h of
        Rejecting \<Rightarrow> (st, [])
      | Serving \<Rightarrow>
          (case d of
             CHAT message \<Rightarrow>
               (st\<lparr>messages :=
                     (if list_ex (\<lambda>m. m_id m = m_id message) (messages st) then messages st
                      else messages st @ [message])\<rparr>,
                relay st d c)
           | SYNC_PARTICIPANTS payload \<Rightarrow> (st\<lparr>participants := payload\<rparr>, [])
           | REACTION rp \<Rightarrow> (st\<lparr>messages := map (applyReaction rp) (messages st)\<rparr>, relay st d c)
           | TYPING userId isTyping \<Rightarrow>
               (st\<lparr>typingUsers :=
                     (if isTyping then insert userId (typingUsers st) else typingUsers st - {userId})\<rparr>,
                relay st d c)
           | KICKED reason \<Rightarrow> cleanup (st\<lparr>kickReason := Some (kickReasonOf reason)\<rparr>)
           | ADMIN_REQUEST action targetId \<Rightarrow>
               if amHost st
               then handleAdminRequest participantsAtMount st action targetId (c_peer c)
               else (st, [])
           | OtherData t \<Rightarrow> (st, [])))"

definition on_close :: "handlers \<Rightarrow> room \<Rightarrow> conn \<Rightarrow> room \<times> effect list" where
  "on_close h st c =
     (case h of
        Rejecting \<Rightarrow> (st, [])
      | Serving \<Rightarrow>
          let st1 = st\<lparr>connectionsRef := AList.delete (c_peer c) (connectionsRef st)\<rparr>
          in if amHost st1 then broadcastParticipantList st1
             else (removeParticipant (c_peer c) st1, []))"

subsection \<open>Local actions\<close>

text \<open>
  \<open>sendMessage\<close>: the id is the result of \<open>uuidv4()\<close> and the timestamp that of
  \<open>Date.now()\<close>; both are inputs of the model.
\<close>

definition newMessage :: "room \<Rightarrow> string \<Rightarrow> int \<Rightarrow> string \<Rightarrow> MessageType \<Rightarrow> ChatMessage" where
  "newMessage st uuid now text type =
     (let myName = (case find (\<lambda>p. p_id p = peerId st) (participants st) of
                      Some me \<Rightarrow> p_name me
                    | None \<Rightarrow> if isHost st then ''Host'' else ''User'')
      in \<lparr>m_id = uuid, m_senderId = peerId st,
          m_senderName = (if type = AI then ''Gemini'' else myName),
          m_text = text, m_timestamp = now, m_type = type, m_reactions = []\<rparr>)"

definition sendMessage :: "room \<Rightarrow> string \<Rightarrow> int \<Rightarrow> string \<Rightarrow> MessageType \<Rightarrow> room \<times> effect list" where
  "sendMessage st uuid now text type =
     (st\<lparr>messages := messages st @ [newMessage st uuid now text type]\<rparr>,
      broadcastData st (CHAT (newMessage st uuid now text type)) None)"

definition handleTyping :: "room \<Rightarrow> bool \<Rightarrow> room \<times> effect list" where
  "handleTyping st isTyping = (st, broadcastData st (TYPING (peerId st) isTyping) None)"

definition reactionName :: "room \<Rightarrow> string" where
  "reactionName st =
     (case find (\<lambda>p. p_id p = peerId st) (participants st) of
        Some me \<Rightarrow> p_name me
      | None \<Rightarrow> ''User'')"

text \<open>
  \<open>handleReaction\<close> passes \<open>setMessages\<close> a function that maps over the log and, in
  passing, assigns the variable \<open>action\<close> at every message with the given id; after the
  call it broadcasts \<open>action\<close>. \<open>toggleReaction\<close> is the message the map returns and
  \<open>resolveAction\<close> is the assignment, so \<open>foldl\<close> over the log gives the value the
  variable has once the function has run, starting from \<open>'add'\<close>.

  React queues the function and applies it when it next renders the Room, after
  \<open>handleReaction\<close> has returned; only when the Room has no update pending does it apply
  it inside the call of \<open>setMessages\<close>. The input \<open>applied\<close> tells whether it has been
  applied by the time of the broadcast. The state after the toggle is the same in both
  cases.
\<close>

definition toggleReaction :: "string \<Rightarrow> string \<Rightarrow> string \<Rightarrow> string \<Rightarrow> ChatMessage \<Rightarrow> ChatMessage" where
  "toggleReaction me senderName messageId emoji msg =
     (if m_id msg = messageId
      then let hasReacted = list_ex (sameReaction me emoji) (m_reactions msg)
           in msg\<lparr>m_reactions :=
                    (if hasReacted
                     then filter (\<lambda>r. \<not> sameReaction me emoji r) (m_reactions msg)
                     else m_reactions msg @
                            [\<lparr>r_emoji = emoji, r_senderId = me, r_senderName = senderName\<rparr>])\<rparr>
      else msg)"

definition resolveAction :: "string \<Rightarrow> string \<Rightarrow> string \<Rightarrow> string \<Rightarrow> ChatMessage \<Rightarrow> string" where
  "resolveAction me messageId emoji action msg =
     (if m_id msg = messageId
      then (if list_ex (sameReaction me emoji) (m_reactions msg) then ''remove'' else ''add'')
      else action)"

definition handleReaction :: "bool \<Rightarrow> room \<Rightarrow> string \<Rightarrow> string \<Rightarrow> room \<times> effect list" where
  "handleReaction applied st messageId emoji =
     (let senderName = reactionName st;
          action = (if applied then foldl (resolveAction (peerId st) messageId emoji) ''add'' (messages st)
                    else ''add'')
      in (st\<lparr>messages := map (toggleReaction (peerId st) senderName messageId emoji) (messages st)\<rparr>,
          broadcastData st
            (REACTION \<lparr>rp_messageId = messageId, rp_emoji = emoji, rp_senderId = peerId st,
                        rp_senderName = senderName, rp_action = action\<rparr>) None))"

definition triggerAction :: "room \<Rightarrow> string \<Rightarrow> string \<Rightarrow> room \<times> effect list" where
  "triggerAction st action targetId =
     (if isHost st then executeAdminAction st action targetId
      else (st, (case map_of (connectionsRef st) (hostPeerId st) of
                   None \<Rightarrow> []
                 | Some hostConn \<Rightarrow>
                     if c_open hostConn then [Send hostConn (ADMIN_REQUEST action targetId)] else [])))"

section \<open>The assistant (services/geminiService.ts)\<close>

text \<open>
  The call \<open>ai.models.generateContent\<close> is the external assistant: a function from the
  prompt to an exception or to a response whose text may be missing.
  \<open>generateAIResponse\<close> returns a promise: \<open>Inr\<close> when it resolves, \<open>Inl\<close> when it rejects.
\<close>

datatype api_error = ApiError string

fun joinLines :: "string list \<Rightarrow> string" where
  "joinLines [] = []"
| "joinLines [x] = x"
| "joinLines (x # y # ys) = x @ [CHR 0x0A] @ joinLines (y # ys)"

definition promptOf :: "string \<Rightarrow> ChatMessage list \<Rightarrow> string" where
  "promptOf currentMessage history =
     (let context = joinLines (map (\<lambda>msg. m_senderName msg @ '': '' @ m_text msg) history)
      in joinLines
           [[],
            ''      You are a helpful, friendly AI assistant participating in a group chat. '',
            ''      Use the following conversation context to answer the user'' @ [CHR 0x27] @
              ''s request briefly and naturally.'',
            ''      '',
            ''      CONTEXT:'',
            ''      '' @ context,
            ''      '',
            ''      USER REQUEST:'',
            ''      '' @ currentMessage,
            ''      '',
            ''      RESPONSE (Keep it under 100 words):'',
            ''    ''])"

definition noResponseText :: string where
  "noResponseText = ''I couldn'' @ [CHR 0x27] @ ''t generate a response.''"

definition apologyText :: string where
  "apologyText = ''Sorry, I'' @ [CHR 0x27] @ ''m having trouble connecting to the AI right now.''"

definition generateAIResponse ::
  "(string \<Rightarrow> api_error + string option) \<Rightarrow> string \<Rightarrow> ChatMessage list \<Rightarrow> api_error + string" where
  "generateAIResponse api currentMessage history =
     (case api (promptOf currentMessage history) of
        Inr response \<Rightarrow>
          Inr (case response of
                 None \<Rightarrow> noResponseText
               | Some t \<Rightarrow> if t = [] then noResponseText else t)
      | Inl error \<Rightarrow> Inr apologyText)"

section \<open>The composer (components/Chat.tsx)\<close>

text \<open>
  A JavaScript string is a sequence of code units; a \<open>char\<close> is a code unit below 256,
  so the strings of the model are those of the Latin-1 range. \<open>String.prototype.trim\<close>
  strips the white space and line terminators at both ends: below 256 these are tab,
  line feed, vertical tab, form feed, carriage return, space and the no-break space
  U+00A0. \<open>toLowerCase\<close> maps \<open>A\<close> to \<open>Z\<close> and the capital letters U+00C0 to U+00DE, the
  multiplication sign U+00D7 apart, to the code unit 32 higher, and nothing else.
\<close>

definition isSpace :: "char \<Rightarrow> bool" where
  "isSpace c =
     (c \<in> set [CHR 0x09, CHR 0x0A, CHR 0x0B, CHR 0x0C, CHR 0x0D, CHR 0x20, CHR 0xA0])"

definition trim :: "string \<Rightarrow> string" where
  "trim s = rev (dropWhile isSpace (rev (dropWhile isSpace s)))"

definition lowerChar :: "char \<Rightarrow> char" where
  "lowerChar c =
     (let n = (of_char c :: nat)
      in if (65 \<le> n \<and> n \<le> 90) \<or> (192 \<le> n \<and> n \<le> 222 \<and> n \<noteq> 215)
         then char_of (n + 32) else c)"

definition toLowerCase :: "string \<Rightarrow> string" where
  "toLowerCase s = map lowerChar s"

definition startsWith :: "string \<Rightarrow> string \<Rightarrow> bool" where
  "startsWith s t = (take (length t) s = t)"

fun includesStr :: "string \<Rightarrow> string \<Rightarrow> bool" where
  "includesStr [] t = (t = [])"
| "includesStr (x # xs) t = (startsWith (x # xs) t \<or> includesStr xs t)"

definition invokesAI :: "string \<Rightarrow> bool" where
  "invokesAI text = (startsWith (toLowerCase text) ''@ai'' \<or> includesStr (toLowerCase text) ''gemini'')"

text \<open>The state of the composer: \<open>typingTimeoutRef\<close> is true while a stop-typing timer is pending.\<close>

record chat =
  inputValue :: string
  typingTimeoutRef :: bool
  isThinking :: bool

text \<open>
  \<open>handleSend\<close>, with \<open>onSendMessage\<close> and \<open>onTyping\<close> bound to \<open>sendMessage\<close> and
  \<open>handleTyping\<close> of the Room as \<open>App.tsx\<close> binds them. The two sends take their id and
  timestamp as inputs. The \<open>try\<close> is the case on the promise: the \<open>catch\<close> branch runs
  when it rejects. \<open>handleSendWith\<close> is the body with the function it awaits as the
  parameter \<open>respond\<close>; the composer imports \<open>generateAIResponse\<close> for it.
\<close>

definition handleSendWith ::
  "(string \<Rightarrow> ChatMessage list \<Rightarrow> api_error + string) \<Rightarrow> chat \<Rightarrow> room
     \<Rightarrow> string \<Rightarrow> int \<Rightarrow> string \<Rightarrow> int \<Rightarrow> chat \<times> room \<times> effect list" where
  "handleSendWith respond ch st ida ta idb tb =
     (if trim (inputValue ch) = [] then (ch, st, [])
      else
        let text = trim (inputValue ch);
            (st1, out1) = (if typingTimeoutRef ch then handleTyping st False else (st, []));
            ch1 = ch\<lparr>inputValue := [], typingTimeoutRef := False\<rparr>;
            (st2, out2) = sendMessage st1 ida ta text USER
        in if invokesAI text
           then let (st3, out3) =
                      (case respond text (messages st) of
                         Inr response \<Rightarrow> sendMessage st2 idb tb response AI
                       | Inl err \<Rightarrow> sendMessage st2 idb tb ''I had a glitch.'' SYSTEM)
                in (ch1\<lparr>isThinking := False\<rparr>, st3, out1 @ out2 @ out3)
           else (ch1, st2, out1 @ out2))"

definition handleSend ::
  "chat \<Rightarrow> room \<Rightarrow> (string \<Rightarrow> api_error + string option) \<Rightarrow> string \<Rightarrow> int \<Rightarrow> string \<Rightarrow> int
     \<Rightarrow> chat \<times> room \<times> effect list" where
  "handleSend ch st api ida ta idb tb = handleSendWith (generateAIResponse api) ch st ida ta idb tb"

section \<open>The events of a Room\<close>

text \<open>
  The transport owns \<open>conn.open\<close>: it is true from the \<open>open\<close> event of the connection to
  its \<open>close\<close> event. The registry holds the connection objects themselves, so the flag
  of a registered object changes with it.
\<close>

definition transportFlag :: "nat \<Rightarrow> bool \<Rightarrow> room \<Rightarrow> room" where
  "transportFlag i b st =
     st\<lparr>connectionsRef :=
          map (\<lambda>(k, c). (k, if c_id c = i then c\<lparr>c_open := b\<rparr> else c)) (connectionsRef st)\<rparr>"

text \<open>
  One event of the Room: a connection delivered by the peer object, an event of a
  connection with the handlers installed on it, a \<open>setTimeout(broadcastParticipantList)\<close>
  that fires, or an action of the local user. The events of a connection name the
  handlers that \<open>handleDataConnection\<close> gave it; \<open>open\<close> and \<open>close\<close> set the flag of
  the connection object before its handler runs.
\<close>

datatype event =
    Connection conn
  | Open handlers conn
  | Data handlers conn data
  | Close handlers conn
  | TimerBroadcast
  | LocalSend string int string MessageType
  | LocalTyping bool
  | LocalReaction bool string string
  | LocalAdmin string string

definition step :: "room \<Rightarrow> event \<Rightarrow> room \<times> effect list" where
  "step st ev =
     (case ev of
        Connection c \<Rightarrow> (fst (handleDataConnection st c), [])
      | Open h c \<Rightarrow> on_open h (transportFlag (c_id c) True st) (c\<lparr>c_open := True\<rparr>)
      | Data h c d \<Rightarrow> on_data h st c d
      | Close h c \<Rightarrow> on_close h (transportFlag (c_id c) False st) (c\<lparr>c_open := False\<rparr>)
      | TimerBroadcast \<Rightarrow> broadcastParticipantList st
      | LocalSend uuid now text type \<Rightarrow> sendMessage st uuid now text type
      | LocalTyping b \<Rightarrow> handleTyping st b
      | LocalReaction applied messageId emoji \<Rightarrow> handleReaction applied st messageId emoji
      | LocalAdmin action targetId \<Rightarrow> triggerAction st action targetId)"

fun run :: "room \<Rightarrow> event list \<Rightarrow> room \<times> effect list" where
  "run st [] = (st, [])"
| "run st (ev # evs) =
     (let (st1, out1) = step st ev; (st2, out2) = run st1 evs in (st2, out1 @ out2))"


text \<open>The state of a Host right after \<open>setupHost\<close> and the \<open>open\<close> event of its peer.\<close>

definition hostRoom :: "string \<Rightarrow> room" where
  "hostRoom code =
     \<lparr>roomCode = code, peerInstance = Some (Peer (Some (HOST_PREFIX @ code))),
      connectionsRef = [], bannedPeersRef = {}, messages = [],
      participants = addParticipant (HOST_PREFIX @ code) HOST [],
      peerId = HOST_PREFIX @ code, isHost = True, kickReason = None, typingUsers = {}\<rparr>"

section \<open>Properties of the log and the directory\<close>

text \<open>I2: no two entries of the log share an id.\<close>

definition uniqueIds :: "ChatMessage list \<Rightarrow> bool" where
  "uniqueIds ms = distinct (map m_id ms)"

text \<open>I3: no two reactions of a message share the pair of sender and emoji.\<close>

definition reactionKey :: "Reaction \<Rightarrow> string \<times> string" where
  "reactionKey r = (r_senderId r, r_emoji r)"

definition uniqueReactions :: "ChatMessage \<Rightarrow> bool" where
  "uniqueReactions msg = distinct (map reactionKey (m_reactions msg))"


text \<open>The role a directory gives an identity: that of the first entry with this id.\<close>

definition roleOf :: "Participant list \<Rightarrow> string \<Rightarrow> UserRole option" where
  "roleOf ps i = map_option p_role (find (\<lambda>p. p_id p = i) ps)"

text \<open>
  The authorization of an \<open>ADMIN_REQUEST\<close> in the words of the specification: the
  requester holds MANAGER or HOST, the target is in the directory, the target is not
  the HOST, and a MANAGER does not act on a MANAGER.
\<close>

definition adminChecksPass :: "Participant list \<Rightarrow> string \<Rightarrow> string \<Rightarrow> bool" where
  "adminChecksPass ps requesterId targetId =
     ((roleOf ps requesterId = Some MANAGER \<or> roleOf ps requesterId = Some HOST)
      \<and> roleOf ps targetId \<noteq> None
      \<and> roleOf ps targetId \<noteq> Some HOST
      \<and> \<not> (roleOf ps requesterId = Some MANAGER \<and> roleOf ps targetId = Some MANAGER))"

text \<open>The last \<open>isTyping\<close> value that a list of \<open>TYPING\<close> payloads carries for an identity.\<close>

fun lastTyping :: "string \<Rightarrow> (string \<times> bool) list \<Rightarrow> bool option" where
  "lastTyping u [] = None"
| "lastTyping u ((v, b) # evs) =
     (case lastTyping u evs of Some b' \<Rightarrow> Some b' | None \<Rightarrow> if v = u then Some b else None)"

fun applyTyping :: "room \<Rightarrow> conn \<Rightarrow> (string \<times> bool) list \<Rightarrow> room" where
  "applyTyping st c [] = st"
| "applyTyping st c ((v, b) # evs) = applyTyping (fst (on_data Serving st c (TYPING v b))) c evs"

section \<open>Example rooms and auxiliary notions\<close>

text \<open>
  What two local toggles in a row leave of a message: if the sender had reacted, its
  entries for the emoji are gone and one entry is appended at the end.
\<close>

definition retoggled :: "room \<Rightarrow> string \<Rightarrow> string \<Rightarrow> ChatMessage \<Rightarrow> ChatMessage" where
  "retoggled st messageId emoji msg =
     (if m_id msg = messageId \<and> list_ex (sameReaction (peerId st) emoji) (m_reactions msg)
      then msg\<lparr>m_reactions :=
                 filter (\<lambda>r. \<not> sameReaction (peerId st) emoji r) (m_reactions msg) @
                 [\<lparr>r_emoji = emoji, r_senderId = peerId st, r_senderName = reactionName st\<rparr>]\<rparr>
      else msg)"

text \<open>A Host with two managers and a guest, all three connected.\<close>

definition moderatedRoom :: room where
  "moderatedRoom = (hostRoom ''ROOM01'')
     \<lparr>participants :=
        [\<lparr>p_id = ''gemini-chat-host-ROOM01'', p_name = ''Host'', p_role = HOST, p_isHost = True\<rparr>,
         \<lparr>p_id = ''aaaa-1'', p_name = ''User aaaa'', p_role = MANAGER, p_isHost = False\<rparr>,
         \<lparr>p_id = ''bbbb-2'', p_name = ''User bbbb'', p_role = MANAGER, p_isHost = False\<rparr>,
         \<lparr>p_id = ''cccc-3'', p_name = ''User cccc'', p_role = GUEST, p_isHost = False\<rparr>],
      connectionsRef :=
        [(''aaaa-1'', \<lparr>c_id = 1, c_peer = ''aaaa-1'', c_open = True\<rparr>),
         (''bbbb-2'', \<lparr>c_id = 2, c_peer = ''bbbb-2'', c_open = True\<rparr>),
         (''cccc-3'', \<lparr>c_id = 3, c_peer = ''cccc-3'', c_open = True\<rparr>)]\<rparr>"



text \<open>Connections, messages and reactions of the examples.\<close>

definition connA :: conn where "connA = \<lparr>c_id = 1, c_peer = ''aaaa-1'', c_open = True\<rparr>"

definition connB :: conn where "connB = \<lparr>c_id = 2, c_peer = ''bbbb-2'', c_open = True\<rparr>"

definition connC :: conn where "connC = \<lparr>c_id = 3, c_peer = ''cccc-3'', c_open = True\<rparr>"

definition helloMsg :: ChatMessage where
  "helloMsg = \<lparr>m_id = ''id-1'', m_senderId = ''cccc-3'', m_senderName = ''User cccc'',
               m_text = ''hello'', m_timestamp = 1, m_type = USER, m_reactions = []\<rparr>"

definition likeHost :: Reaction where
  "likeHost = \<lparr>r_emoji = ''+1'', r_senderId = ''gemini-chat-host-ROOM01'', r_senderName = ''Host''\<rparr>"

definition likeC :: Reaction where
  "likeC = \<lparr>r_emoji = ''+1'', r_senderId = ''cccc-3'', r_senderName = ''User cccc''\<rparr>"

definition hostConn :: conn where
  "hostConn = \<lparr>c_id = 1, c_peer = ''gemini-chat-host-ROOM01'', c_open = True\<rparr>"



definition connD :: conn where "connD = \<lparr>c_id = 4, c_peer = ''dddd-4'', c_open = False\<rparr>"


definition likeAgain :: ReactionPayload where
  "likeAgain = \<lparr>rp_messageId = ''id-1'', rp_emoji = ''+1'', rp_senderId = ''cccc-3'',
                rp_senderName = ''User cccc'', rp_action = ''add''\<rparr>"

text \<open>The moderated Host with one message that the Host and a guest have reacted to.\<close>

definition reactedRoom :: room where
  "reactedRoom = moderatedRoom\<lparr>messages := [helloMsg\<lparr>m_reactions := [likeHost, likeC]\<rparr>]\<rparr>"

text \<open>A guest of the same room, connected to the Host.\<close>

definition guestRoom :: room where
  "guestRoom =
     \<lparr>roomCode = ''ROOM01'', peerInstance = Some (Peer (Some ''cccc-3'')),
      connectionsRef =
        [(''gemini-chat-host-ROOM01'',
          \<lparr>c_id = 1, c_peer = ''gemini-chat-host-ROOM01'', c_open = True\<rparr>)],
      bannedPeersRef = {}, messages = [],
      participants =
        [\<lparr>p_id = ''cccc-3'', p_name = ''User cccc'', p_role = GUEST, p_isHost = False\<rparr>,
         \<lparr>p_id = ''gemini-chat-host-ROOM01'', p_name = ''Host'', p_role = HOST, p_isHost = True\<rparr>],
      peerId = ''cccc-3'', isHost = False, kickReason = None, typingUsers = {}\<rparr>"


text \<open>
  The connection objects that are open after a list of events: those with an \<open>open\<close>
  event and no \<open>close\<close> event after it.
\<close>

fun openAfter :: "nat list \<Rightarrow> event list \<Rightarrow> nat list" where
  "openAfter os [] = os"
| "openAfter os (Open h c # evs) = openAfter (c_id c # removeAll (c_id c) os) evs"
| "openAfter os (Close h c # evs) = openAfter (removeAll (c_id c) os) evs"
| "openAfter os (ev # evs) = openAfter os evs"


text \<open>The moderated Host with an identity in the ban list that has no link.\<close>

definition bannedRoom :: room where
  "bannedRoom = moderatedRoom\<lparr>bannedPeersRef := {''dddd-4''}\<rparr>"

text \<open>An assistant whose call throws, and a composer whose input invokes the assistant.\<close>

definition failingApi :: "string \<Rightarrow> api_error + string option" where
  "failingApi prompt = Inl (ApiError ''fetch failed'')"

definition askingChat :: chat where
  "askingChat =
     \<lparr>inputValue = [CHR 0xA0] @ '' @AI what is up?  '', typingTimeoutRef = True, isThinking = False\<rparr>"

section \<open>Helper lemmas\<close>

lemma amHost_moderatedRoom: "amHost moderatedRoom"
  by (simp add: moderatedRoom_def hostRoom_def amHost_def myId_def hostPeerId_def)

lemma not_list_ex_filter: "\<not> list_ex P xs \<Longrightarrow> filter (\<lambda>x. \<not> P x) xs = xs"
  by (induction xs) auto

lemma list_ex_filter_not: "\<not> list_ex P (filter (\<lambda>x. \<not> P x) xs)"
  by (induction xs) auto

lemma sameReaction_key: "sameReaction sid em r = (reactionKey r = (sid, em))"
  by (auto simp: sameReaction_def reactionKey_def)

lemma uniqueReactions_applyReaction:
  "uniqueReactions msg \<Longrightarrow> uniqueReactions (applyReaction rp msg)"
  by (auto simp: uniqueReactions_def applyReaction_def distinct_map_filter list_ex_iff
      sameReaction_key reactionKey_def)

lemma applyReaction_other: "m_id msg \<noteq> rp_messageId rp \<Longrightarrow> applyReaction rp msg = msg"
  by (simp add: applyReaction_def)

lemma applyReaction_add_present:
  "rp_action rp \<noteq> ''remove'' \<Longrightarrow>
   list_ex (sameReaction (rp_senderId rp) (rp_emoji rp)) (m_reactions msg) \<Longrightarrow>
   applyReaction rp msg = msg"
  by (simp add: applyReaction_def)

lemma sameReaction_new: "sameReaction me e \<lparr>r_emoji = e, r_senderId = me, r_senderName = n\<rparr>"
  by (simp add: sameReaction_def)

lemma toggle_twice:
  "toggleReaction me n mid e (toggleReaction me n mid e msg) =
     (if m_id msg = mid \<and> list_ex (sameReaction me e) (m_reactions msg)
      then msg\<lparr>m_reactions := filter (\<lambda>r. \<not> sameReaction me e r) (m_reactions msg) @
                 [\<lparr>r_emoji = e, r_senderId = me, r_senderName = n\<rparr>]\<rparr>
      else msg)"
  by (auto simp: toggleReaction_def Let_def list_ex_filter_not not_list_ex_filter sameReaction_new)

lemma handleReaction_fst:
  "fst (handleReaction applied st mid e) =
     st\<lparr>messages := map (toggleReaction (peerId st) (reactionName st) mid e) (messages st)\<rparr>"
  by (simp add: handleReaction_def Let_def)

lemma keys_after_retoggle:
  "list_ex (sameReaction me e) xs \<Longrightarrow>
   reactionKey ` set (filter (\<lambda>r. \<not> sameReaction me e r) xs @ [\<lparr>r_emoji = e, r_senderId = me, r_senderName = n\<rparr>])
     = reactionKey ` set xs"
  by (auto simp: list_ex_iff sameReaction_key image_iff) (auto simp: reactionKey_def)

lemma foldl_resolve_absent:
  "mid \<notin> m_id ` set ms \<Longrightarrow> foldl (resolveAction me mid e) a ms = a"
  by (induction ms arbitrary: a) (auto simp: resolveAction_def)

lemma foldl_resolve_range:
  "a = ''add'' \<or> a = ''remove'' \<Longrightarrow>
   foldl (resolveAction me mid e) a ms = ''add'' \<or> foldl (resolveAction me mid e) a ms = ''remove''"
  by (induction ms arbitrary: a) (auto simp: resolveAction_def)

lemma foldl_resolve_unique:
  "distinct (map m_id ms) \<Longrightarrow> m \<in> set ms \<Longrightarrow> m_id m = mid \<Longrightarrow>
   foldl (resolveAction me mid e) a ms =
     (if list_ex (sameReaction me e) (m_reactions m) then ''remove'' else ''add'')"
proof (induction ms arbitrary: a)
  case Nil
  then show ?case by simp
next
  case (Cons x xs)
  show ?case
  proof (cases "x = m")
    case True
    then have "mid \<notin> m_id ` set xs" using Cons.prems by auto
    then show ?thesis using True Cons.prems
      by (simp add: foldl_resolve_absent) (simp add: resolveAction_def)
  next
    case False
    then show ?thesis using Cons by auto
  qed
qed

lemma toggle_is_apply:
  "action = (if list_ex (sameReaction me e) (m_reactions m) then ''remove'' else ''add'') \<Longrightarrow>
   toggleReaction me n mid e m =
     applyReaction \<lparr>rp_messageId = mid, rp_emoji = e, rp_senderId = me, rp_senderName = n,
                    rp_action = action\<rparr> m"
  by (auto simp: toggleReaction_def applyReaction_def Let_def)




















lemma amHost_cong:
  "peerInstance st' = peerInstance st \<Longrightarrow> roomCode st' = roomCode st \<Longrightarrow> amHost st' = amHost st"
  by (simp add: amHost_def myId_def hostPeerId_def)
























lemma generateAIResponse_resolves: "\<exists>t. generateAIResponse api text history = Inr t"
  by (simp add: generateAIResponse_def split: sum.splits)

lemma generateAIResponse_failure:
  "api (promptOf text history) = Inl err \<Longrightarrow> generateAIResponse api text history = Inr apologyText"
  by (simp add: generateAIResponse_def)

lemma sendMessage_frame:
  "fst (sendMessage st u n t ty) = st\<lparr>messages := messages st @ [newMessage st u n t ty]\<rparr>"
  by (simp add: sendMessage_def)

lemma newMessage_frame: "newMessage (st\<lparr>messages := ms\<rparr>) u n t ty = newMessage st u n t ty"
  by (simp add: newMessage_def)

lemmas ex_defs = step_def on_data_def on_open_def on_close_def handleDataConnection_def
  broadcastParticipantList_def updatedList_def pushMissing_def defaultName_def addParticipant_def
  removeParticipant_def transportFlag_def triggerAction_def executeAdminAction_def kickEffects_def
  relay_def broadcastData_def amHost_def myId_def hostPeerId_def HOST_PREFIX_def hostRoom_def
  moderatedRoom_def Let_def


lemma typing_last_event:
  "(u \<in> typingUsers (applyTyping st c evs)) =
     (case lastTyping u evs of None \<Rightarrow> u \<in> typingUsers st | Some b \<Rightarrow> b)"
proof (induction evs arbitrary: st)
  case Nil
  then show ?case by simp
next
  case (Cons ev evs)
  obtain v b where ev: "ev = (v, b)" by (cases ev)
  show ?case unfolding ev
    by (simp add: Cons.IH on_data_def split: option.splits)
qed


section \<open>Claims\<close>

text \<open>
  What \<open>handleAdminRequest\<close> does with the directory it reads: it executes the action
  exactly if the four checks of the specification pass on that directory.
\<close>

lemma handleAdminRequest_checks:
  "handleAdminRequest ps st action targetId requesterId =
     (if adminChecksPass ps requesterId targetId
      then executeAdminAction st action targetId else (st, []))"
  by (auto simp: handleAdminRequest_def adminChecksPass_def roleOf_def split: option.splits)

text \<open>
  The handler of the connections reads the directory of the first render, which is
  empty: it finds no requester and drops every request.
\<close>

lemma admin_request_dropped:
  "on_data h st c (ADMIN_REQUEST action targetId) = (st, [])"
  by (cases h) (simp_all add: on_data_def handleAdminRequest_def participantsAtMount_def)

text \<open>The moderated Host is reached from a new Host by three guests joining and two promotions.\<close>

lemma moderatedRoom_reachable:
  "moderatedRoom =
     fst (run (hostRoom ''ROOM01'')
            [Connection (connA\<lparr>c_open := False\<rparr>), Open Serving connA,
             Connection (connB\<lparr>c_open := False\<rparr>), Open Serving connB,
             Connection (connC\<lparr>c_open := False\<rparr>), Open Serving connC,
             LocalAdmin ''PROMOTE'' ''aaaa-1'', LocalAdmin ''PROMOTE'' ''bbbb-2''])"
  by (simp add: ex_defs connA_def connB_def connC_def)

text \<open>
  C1. The failing input: on the Host, manager \<open>aaaa-1\<close> requests BAN of guest \<open>cccc-3\<close>.
  All four checks pass on the directory of the Host, and \<open>handleAdminRequest\<close> applied
  to that directory would ban the guest. The handler of the connection leaves the state
  unchanged and sends nothing.
\<close>

theorem C1_admin_request_of_manager_dropped:
  "amHost moderatedRoom
   \<and> roleOf (participants moderatedRoom) ''aaaa-1'' = Some MANAGER
   \<and> roleOf (participants moderatedRoom) ''cccc-3'' = Some GUEST
   \<and> adminChecksPass (participants moderatedRoom) ''aaaa-1'' ''cccc-3''
   \<and> ''cccc-3'' \<in> bannedPeersRef
         (fst (handleAdminRequest (participants moderatedRoom) moderatedRoom ''BAN'' ''cccc-3'' ''aaaa-1''))
   \<and> on_data Serving moderatedRoom connA (ADMIN_REQUEST ''BAN'' ''cccc-3'') = (moderatedRoom, [])"
proof -
  have c: "adminChecksPass (participants moderatedRoom) ''aaaa-1'' ''cccc-3''"
    by (simp add: adminChecksPass_def roleOf_def moderatedRoom_def)
  have b: "''cccc-3'' \<in> bannedPeersRef
         (fst (handleAdminRequest (participants moderatedRoom) moderatedRoom ''BAN'' ''cccc-3'' ''aaaa-1''))"
    using c amHost_moderatedRoom
    by (simp add: handleAdminRequest_checks executeAdminAction_def Let_def)
  have r: "roleOf (participants moderatedRoom) ''aaaa-1'' = Some MANAGER"
    "roleOf (participants moderatedRoom) ''cccc-3'' = Some GUEST"
    by (simp_all add: roleOf_def moderatedRoom_def)
  show ?thesis
    using amHost_moderatedRoom r c b admin_request_dropped [of Serving moderatedRoom connA]
    by blast
qed










text \<open>
  C5. A \<open>KICKED\<close> payload on a connection that carries the data handler, whoever sent
  it, records the reason of the payload, or the default text when the reason is missing
  or empty, and clears the session: the peer, the registry, the log, the directory, the
  typing set and the ban list. On the Host this destroys the Host's peer. A connection
  carries the data handler unless the Host rejected it on arrival because its peer is
  banned; on such a connection a \<open>KICKED\<close> changes nothing.
\<close>

theorem C5_kicked_on_served_connection:
  "on_data Serving st c (KICKED reason) =
     (st\<lparr>kickReason :=
           Some (case reason of
                   None \<Rightarrow> ''You have been kicked.''
                 | Some r \<Rightarrow> if r = [] then ''You have been kicked.'' else r),
         peerInstance := None, connectionsRef := [],
         messages := [], participants := [], typingUsers := {}, bannedPeersRef := {}\<rparr>,
      (case peerInstance st of None \<Rightarrow> [] | Some p \<Rightarrow> [PeerDestroy]))
   \<and> (amHost st \<longrightarrow>
        \<not> amHost (fst (on_data Serving st c (KICKED reason)))
        \<and> snd (on_data Serving st c (KICKED reason)) = [PeerDestroy])
   \<and> (snd (handleDataConnection st c) = Serving) = (\<not> (amHost st \<and> c_peer c \<in> bannedPeersRef st))
   \<and> on_data Rejecting st c (KICKED reason) = (st, [])"
  by (auto simp: on_data_def cleanup_def amHost_def myId_def kickReasonOf_def handleDataConnection_def
        split: option.splits)

theorem C5_kicked_on_served_connection_witness:
  "amHost moderatedRoom
   \<and> roleOf (participants moderatedRoom) ''cccc-3'' = Some GUEST
   \<and> snd (handleDataConnection moderatedRoom connC) = Serving
   \<and> on_data Serving moderatedRoom connC (KICKED (Some ''bye'')) =
       (moderatedRoom\<lparr>kickReason := Some ''bye'', peerInstance := None, connectionsRef := [],
         messages := [], participants := [], typingUsers := {}, bannedPeersRef := {}\<rparr>, [PeerDestroy])
   \<and> on_data Serving moderatedRoom connC (KICKED None) =
       (moderatedRoom\<lparr>kickReason := Some ''You have been kicked.'', peerInstance := None,
         connectionsRef := [], messages := [], participants := [], typingUsers := {},
         bannedPeersRef := {}\<rparr>, [PeerDestroy])"
proof -
  have g: "roleOf (participants moderatedRoom) ''cccc-3'' = Some GUEST" by (simp add: roleOf_def moderatedRoom_def)
  have p: "peerInstance moderatedRoom = Some (Peer (Some ''gemini-chat-host-ROOM01''))"
    by (simp add: moderatedRoom_def hostRoom_def HOST_PREFIX_def)
  have b: "c_peer connC \<notin> bannedPeersRef moderatedRoom"
    by (simp add: moderatedRoom_def hostRoom_def)
  have s: "snd (handleDataConnection moderatedRoom connC) = Serving"
    using C5_kicked_on_served_connection [of moderatedRoom connC None,
        THEN conjunct2, THEN conjunct2, THEN conjunct1] b
    by simp
  have k1: "on_data Serving moderatedRoom connC (KICKED (Some ''bye'')) =
       (moderatedRoom\<lparr>kickReason := Some ''bye'', peerInstance := None, connectionsRef := [],
         messages := [], participants := [], typingUsers := {}, bannedPeersRef := {}\<rparr>, [PeerDestroy])"
    using C5_kicked_on_served_connection [of moderatedRoom connC "Some ''bye''", THEN conjunct1] p
    by simp
  have k2: "on_data Serving moderatedRoom connC (KICKED None) =
       (moderatedRoom\<lparr>kickReason := Some ''You have been kicked.'', peerInstance := None,
         connectionsRef := [], messages := [], participants := [], typingUsers := {},
         bannedPeersRef := {}\<rparr>, [PeerDestroy])"
    using C5_kicked_on_served_connection [of moderatedRoom connC None, THEN conjunct1] p
    by simp
  show ?thesis using amHost_moderatedRoom g s k1 k2 by blast
qed

theorem C5_counterexample:
  "amHost bannedRoom
   \<and> handleDataConnection bannedRoom connD = (bannedRoom, Rejecting)
   \<and> c_id connD \<in> set (openAfter [] [Connection connD, Open Rejecting connD])
   \<and> kickReason bannedRoom = None
   \<and> run bannedRoom [Connection connD] = (bannedRoom, [])
   \<and> fst (run bannedRoom [Connection connD, Open Rejecting connD]) = bannedRoom
   \<and> on_data Rejecting bannedRoom connD (KICKED (Some ''bye'')) = (bannedRoom, [])"
  by (simp add: bannedRoom_def ex_defs connD_def)

text \<open>
  C6. Two local toggles of the same reaction in a row change nothing but the log, and in
  the log only the messages with the given id on which the sender had reacted: there
  the sender's entries for the emoji are removed and one entry is appended at the end.
  The set of pairs of sender and emoji of every message is as before, and where the
  sender had not reacted the state is as before.
\<close>

theorem C6_toggle_twice:
  "fst (handleReaction applied2 (fst (handleReaction applied1 st mid e)) mid e) =
     st\<lparr>messages := map (retoggled st mid e) (messages st)\<rparr>
   \<and> map (\<lambda>m. reactionKey ` set (m_reactions m))
         (messages (fst (handleReaction applied2 (fst (handleReaction applied1 st mid e)) mid e)))
       = map (\<lambda>m. reactionKey ` set (m_reactions m)) (messages st)
   \<and> ((\<forall>m \<in> set (messages st). m_id m = mid \<longrightarrow>
          \<not> list_ex (sameReaction (peerId st) e) (m_reactions m)) \<longrightarrow>
       fst (handleReaction applied2 (fst (handleReaction applied1 st mid e)) mid e) = st)"
proof -
  have n: "reactionName (st\<lparr>messages := ms\<rparr>) = reactionName st" for ms
    by (simp add: reactionName_def)
  have r: "retoggled st mid e = (\<lambda>msg. toggleReaction (peerId st) (reactionName st) mid e
              (toggleReaction (peerId st) (reactionName st) mid e msg))"
    by (rule ext) (simp add: retoggled_def toggle_twice)
  have a: "fst (handleReaction applied2 (fst (handleReaction applied1 st mid e)) mid e) =
     st\<lparr>messages := map (retoggled st mid e) (messages st)\<rparr>"
    by (simp add: handleReaction_fst n r o_def)
  have b: "map (\<lambda>m. reactionKey ` set (m_reactions m)) (map (retoggled st mid e) (messages st))
       = map (\<lambda>m. reactionKey ` set (m_reactions m)) (messages st)"
  proof -
    have "reactionKey ` set (m_reactions (retoggled st mid e m)) = reactionKey ` set (m_reactions m)" for m
      using keys_after_retoggle [of "peerId st" e "m_reactions m" "reactionName st"]
      by (simp add: retoggled_def)
    then show ?thesis by (simp add: o_def)
  qed
  have c: "(\<forall>m \<in> set (messages st). m_id m = mid \<longrightarrow>
          \<not> list_ex (sameReaction (peerId st) e) (m_reactions m)) \<longrightarrow>
       map (retoggled st mid e) (messages st) = messages st"
    by (auto intro!: map_idI simp: retoggled_def)
  show ?thesis using b c unfolding a by auto
qed

theorem C6_toggle_twice_witness:
  "\<not> list_ex (sameReaction (peerId reactedRoom) ''heart'') [likeHost, likeC]
   \<and> map m_reactions (messages reactedRoom) = [[likeHost, likeC]]
   \<and> fst (handleReaction True (fst (handleReaction True reactedRoom ''id-1'' ''heart'')) ''id-1'' ''heart'')
       = reactedRoom"
proof -
  have a: "\<not> list_ex (sameReaction (peerId reactedRoom) ''heart'') [likeHost, likeC]"
    by (simp add: sameReaction_def likeHost_def likeC_def)
  have b: "map m_reactions (messages reactedRoom) = [[likeHost, likeC]]"
    by (simp add: reactedRoom_def)
  have c: "\<forall>m \<in> set (messages reactedRoom). m_id m = ''id-1'' \<longrightarrow>
          \<not> list_ex (sameReaction (peerId reactedRoom) ''heart'') (m_reactions m)"
    using a by (simp add: reactedRoom_def)
  show ?thesis
    using C6_toggle_twice [of True True reactedRoom "''id-1''" "''heart''", THEN conjunct2, THEN conjunct2] a b c
    by blast
qed

theorem C6_counterexample:
  "map m_reactions (messages reactedRoom) = [[likeHost, likeC]]
   \<and> map m_reactions
        (messages (fst (handleReaction True (fst (handleReaction True reactedRoom ''id-1'' ''+1'')) ''id-1'' ''+1'')))
       = [[likeC, likeHost]]
   \<and> likeHost \<noteq> likeC"
  by (simp add: handleReaction_def toggleReaction_def reactionName_def sameReaction_def Let_def
        reactedRoom_def moderatedRoom_def hostRoom_def helloMsg_def likeHost_def likeC_def
        HOST_PREFIX_def addParticipant_def)

text \<open>
  When the function passed to \<open>setMessages\<close> has run before the broadcast, the payload
  carries \<open>add\<close> or \<open>remove\<close>; with unique ids in the log it is \<open>remove\<close> exactly if the
  sender already had the reaction, and the change to the own log is the one a receiver
  of the payload makes.
\<close>

lemma resolved_action_when_applied:
  "\<exists>action.
     snd (handleReaction True st mid e) =
       broadcastData st
         (REACTION \<lparr>rp_messageId = mid, rp_emoji = e, rp_senderId = peerId st,
                     rp_senderName = reactionName st, rp_action = action\<rparr>) None
     \<and> (action = ''add'' \<or> action = ''remove'')
     \<and> (uniqueIds (messages st) \<longrightarrow>
          ((action = ''remove'') =
             (\<exists>m \<in> set (messages st). m_id m = mid \<and>
                list_ex (sameReaction (peerId st) e) (m_reactions m)))
          \<and> messages (fst (handleReaction True st mid e)) =
              map (applyReaction \<lparr>rp_messageId = mid, rp_emoji = e, rp_senderId = peerId st,
                     rp_senderName = reactionName st, rp_action = action\<rparr>) (messages st))"
proof -
  define action where "action = foldl (resolveAction (peerId st) mid e) ''add'' (messages st)"
  have s: "snd (handleReaction True st mid e) =
       broadcastData st
         (REACTION \<lparr>rp_messageId = mid, rp_emoji = e, rp_senderId = peerId st,
                     rp_senderName = reactionName st, rp_action = action\<rparr>) None"
    by (simp add: handleReaction_def Let_def action_def)
  have r: "action = ''add'' \<or> action = ''remove''"
    unfolding action_def by (rule foldl_resolve_range) simp
  have u: "(action = ''remove'') =
             (\<exists>m \<in> set (messages st). m_id m = mid \<and>
                list_ex (sameReaction (peerId st) e) (m_reactions m))"
    if "uniqueIds (messages st)"
  proof (cases "mid \<in> m_id ` set (messages st)")
    case True
    then obtain m where m: "m \<in> set (messages st)" "m_id m = mid" by auto
    have d: "distinct (map m_id (messages st))" using that by (simp add: uniqueIds_def)
    have inj: "inj_on m_id (set (messages st))" using d by (simp add: distinct_map)
    have same: "m' = m" if "m' \<in> set (messages st)" "m_id m' = mid" for m'
      using inj m that by (simp add: inj_on_def)
    have act: "action = (if list_ex (sameReaction (peerId st) e) (m_reactions m) then ''remove'' else ''add'')"
      unfolding action_def by (rule foldl_resolve_unique [OF d m])
    show ?thesis
    proof (cases "list_ex (sameReaction (peerId st) e) (m_reactions m)")
      case True
      then have "action = ''remove''" using act by simp
      then show ?thesis using m True by blast
    next
      case False
      then have a: "action \<noteq> ''remove''" using act by simp
      have "\<not> (\<exists>m' \<in> set (messages st). m_id m' = mid \<and>
                list_ex (sameReaction (peerId st) e) (m_reactions m'))"
        using same False by blast
      then show ?thesis using a by blast
    qed
  next
    case False
    then have a: "action = ''add''" unfolding action_def by (simp add: foldl_resolve_absent)
    have "action \<noteq> ''remove''" unfolding a by simp
    then show ?thesis using False by blast
  qed
  have t: "messages (fst (handleReaction True st mid e)) =
              map (applyReaction \<lparr>rp_messageId = mid, rp_emoji = e, rp_senderId = peerId st,
                     rp_senderName = reactionName st, rp_action = action\<rparr>) (messages st)"
    if "uniqueIds (messages st)"
  proof -
    have d: "distinct (map m_id (messages st))" using that by (simp add: uniqueIds_def)
    have "toggleReaction (peerId st) (reactionName st) mid e m =
          applyReaction \<lparr>rp_messageId = mid, rp_emoji = e, rp_senderId = peerId st,
                     rp_senderName = reactionName st, rp_action = action\<rparr> m"
      if m: "m \<in> set (messages st)" for m
    proof (cases "m_id m = mid")
      case True
      have "action = (if list_ex (sameReaction (peerId st) e) (m_reactions m) then ''remove'' else ''add'')"
        unfolding action_def by (rule foldl_resolve_unique [OF d m True])
      then show ?thesis by (rule toggle_is_apply)
    next
      case False
      then show ?thesis by (simp add: toggleReaction_def applyReaction_def)
    qed
    then show ?thesis by (simp add: handleReaction_fst)
  qed
  show ?thesis
    by (rule exI [of _ action]) (use s r u t in blast)
qed

text \<open>
  C7. The failing input: the Host has reacted to a message and toggles the reaction
  off while the function passed to \<open>setMessages\<close> is queued. The own log loses the
  reaction, and the payload sent to the three guests carries \<open>add\<close>, which their
  handler treats as an addition of a reaction they already hold.
\<close>

theorem C7_removal_broadcast_as_add:
  "uniqueIds (messages reactedRoom)
   \<and> map m_reactions (messages reactedRoom) = [[likeHost, likeC]]
   \<and> list_ex (sameReaction (peerId reactedRoom) ''+1'') [likeHost, likeC]
   \<and> map m_reactions (messages (fst (handleReaction False reactedRoom ''id-1'' ''+1''))) = [[likeC]]
   \<and> snd (handleReaction False reactedRoom ''id-1'' ''+1'') =
       map (\<lambda>c. Send c (REACTION \<lparr>rp_messageId = ''id-1'', rp_emoji = ''+1'',
                                     rp_senderId = ''gemini-chat-host-ROOM01'', rp_senderName = ''Host'',
                                     rp_action = ''add''\<rparr>))
           [connA, connB, connC]
   \<and> map m_reactions (messages (fst (on_data Serving (fst (handleReaction False reactedRoom ''id-1'' ''+1'')) connA
         (REACTION \<lparr>rp_messageId = ''id-1'', rp_emoji = ''+1'',
                     rp_senderId = ''gemini-chat-host-ROOM01'', rp_senderName = ''Host'',
                     rp_action = ''add''\<rparr>)))) = [[likeC, likeHost]]"
  by (simp add: handleReaction_def toggleReaction_def applyReaction_def on_data_def reactionName_def
        broadcastData_def sameReaction_def uniqueIds_def Let_def reactedRoom_def helloMsg_def
        likeHost_def likeC_def moderatedRoom_def hostRoom_def HOST_PREFIX_def addParticipant_def
        connA_def connB_def connC_def)

text \<open>
  C8. An inbound \<open>REACTION\<close> keeps I3: if no message of the log has two reactions with
  the same sender and emoji, none has after it. An addition of a pair that every
  addressed message already has, and a \<open>REACTION\<close> for an id that is not in the log,
  leave the state unchanged.
\<close>

theorem C8_inbound_reaction_keeps_I3:
  "((\<forall>m \<in> set (messages st). uniqueReactions m) \<longrightarrow>
      (\<forall>m \<in> set (messages (fst (on_data Serving st c (REACTION rp)))). uniqueReactions m))
   \<and> (rp_action rp \<noteq> ''remove'' \<and>
       (\<forall>m \<in> set (messages st). m_id m = rp_messageId rp \<longrightarrow>
          list_ex (sameReaction (rp_senderId rp) (rp_emoji rp)) (m_reactions m)) \<longrightarrow>
       fst (on_data Serving st c (REACTION rp)) = st)
   \<and> (\<not> list_ex (\<lambda>m. m_id m = rp_messageId rp) (messages st) \<longrightarrow>
       fst (on_data Serving st c (REACTION rp)) = st)"
proof -
  have m: "messages (fst (on_data Serving st c (REACTION rp))) = map (applyReaction rp) (messages st)"
    by (simp add: on_data_def)
  have s: "fst (on_data Serving st c (REACTION rp)) = st\<lparr>messages := map (applyReaction rp) (messages st)\<rparr>"
    by (simp add: on_data_def)
  have a: "(\<forall>m \<in> set (messages st). uniqueReactions m) \<longrightarrow>
      (\<forall>m \<in> set (messages (fst (on_data Serving st c (REACTION rp)))). uniqueReactions m)"
    unfolding m by (auto simp: uniqueReactions_applyReaction)
  have b: "rp_action rp \<noteq> ''remove'' \<and>
       (\<forall>m \<in> set (messages st). m_id m = rp_messageId rp \<longrightarrow>
          list_ex (sameReaction (rp_senderId rp) (rp_emoji rp)) (m_reactions m)) \<longrightarrow>
       map (applyReaction rp) (messages st) = messages st"
  proof (intro impI map_idI)
    fix m
    assume h: "rp_action rp \<noteq> ''remove'' \<and>
       (\<forall>m \<in> set (messages st). m_id m = rp_messageId rp \<longrightarrow>
          list_ex (sameReaction (rp_senderId rp) (rp_emoji rp)) (m_reactions m))"
      and m: "m \<in> set (messages st)"
    show "applyReaction rp m = m"
    proof (cases "m_id m = rp_messageId rp")
      case True
      then show ?thesis using h m by (simp add: applyReaction_add_present)
    next
      case False
      then show ?thesis by (simp add: applyReaction_other)
    qed
  qed
  have c: "\<not> list_ex (\<lambda>m. m_id m = rp_messageId rp) (messages st) \<longrightarrow>
       map (applyReaction rp) (messages st) = messages st"
    by (auto intro!: map_idI simp: list_ex_iff applyReaction_other)
  show ?thesis using a b c unfolding s by auto
qed

theorem C8_inbound_reaction_keeps_I3_witness:
  "list_all uniqueReactions (messages reactedRoom)
   \<and> rp_action likeAgain \<noteq> ''remove''
   \<and> list_all uniqueReactions (messages (fst (on_data Serving reactedRoom connC (REACTION likeAgain))))
   \<and> fst (on_data Serving reactedRoom connC (REACTION likeAgain)) = reactedRoom"
proof -
  have u: "\<forall>m \<in> set (messages reactedRoom). uniqueReactions m"
    by (simp add: reactedRoom_def uniqueReactions_def reactionKey_def likeHost_def likeC_def)
  have a: "rp_action likeAgain \<noteq> ''remove''" by (simp add: likeAgain_def)
  have p: "\<forall>m \<in> set (messages reactedRoom). m_id m = rp_messageId likeAgain \<longrightarrow>
          list_ex (sameReaction (rp_senderId likeAgain) (rp_emoji likeAgain)) (m_reactions m)"
    by (simp add: reactedRoom_def likeAgain_def sameReaction_def likeC_def)
  note t = C8_inbound_reaction_keeps_I3 [of reactedRoom connC likeAgain]
  have k: "\<forall>m \<in> set (messages (fst (on_data Serving reactedRoom connC (REACTION likeAgain)))). uniqueReactions m"
    using t u by blast
  have e: "fst (on_data Serving reactedRoom connC (REACTION likeAgain)) = reactedRoom"
    using t a p by blast
  show ?thesis using u a k e by (simp add: list_all_iff)
qed

text \<open>
  What the composer does when the function it awaits rejects: after the user's message
  it appends one message of kind SYSTEM with the text \<open>I had a glitch.\<close>, and nothing
  else of the Room changes.
\<close>

lemma handleSend_catch:
  assumes "trim (inputValue ch) \<noteq> []" and "invokesAI (trim (inputValue ch))"
    and "respond (trim (inputValue ch)) (messages st) = Inl err"
  shows "fst (snd (handleSendWith respond ch st ida ta idb tb)) =
           st\<lparr>messages := messages st @
                [newMessage st ida ta (trim (inputValue ch)) USER,
                 newMessage st idb tb ''I had a glitch.'' SYSTEM]\<rparr>
       \<and> m_type (newMessage st idb tb ''I had a glitch.'' SYSTEM) = SYSTEM"
  using assms
  by (simp add: handleSendWith_def Let_def split_def handleTyping_def sendMessage_frame
        newMessage_frame) (simp add: newMessage_def)

text \<open>
  \<open>generateAIResponse\<close> never rejects: when the call of the assistant throws, it resolves
  with its apology text. So the composer appends, after the user's message, one message
  of kind AI under the name Gemini with that text, and none of kind SYSTEM.
\<close>

lemma api_failure_appends_AI_message:
  assumes "trim (inputValue ch) \<noteq> []" and "invokesAI (trim (inputValue ch))"
    and "api (promptOf (trim (inputValue ch)) (messages st)) = Inl err"
  shows "fst (snd (handleSend ch st api ida ta idb tb)) =
           st\<lparr>messages := messages st @
                [newMessage st ida ta (trim (inputValue ch)) USER,
                 \<lparr>m_id = idb, m_senderId = peerId st, m_senderName = ''Gemini'',
                  m_text = apologyText, m_timestamp = tb, m_type = AI, m_reactions = []\<rparr>]\<rparr>
       \<and> filter (\<lambda>m. m_type m = SYSTEM) (messages (fst (snd (handleSend ch st api ida ta idb tb))))
           = filter (\<lambda>m. m_type m = SYSTEM) (messages st)
       \<and> fst (handleSend ch st api ida ta idb tb) =
           \<lparr>inputValue = [], typingTimeoutRef = False, isThinking = False\<rparr>"
proof -
  let ?text = "trim (inputValue ch)"
  have g: "generateAIResponse api ?text (messages st) = Inr apologyText"
    using assms(3) by (rule generateAIResponse_failure)
  have a: "fst (snd (handleSend ch st api ida ta idb tb)) =
           st\<lparr>messages := messages st @
                [newMessage st ida ta ?text USER, newMessage st idb tb apologyText AI]\<rparr>"
    using assms(1,2) g
    by (simp add: handleSend_def handleSendWith_def Let_def split_def handleTyping_def
          sendMessage_frame newMessage_frame)
  have n: "newMessage st idb tb apologyText AI =
      \<lparr>m_id = idb, m_senderId = peerId st, m_senderName = ''Gemini'',
                  m_text = apologyText, m_timestamp = tb, m_type = AI, m_reactions = []\<rparr>"
    by (simp add: newMessage_def)
  have u: "m_type (newMessage st ida ta ?text USER) = USER" by (simp add: newMessage_def)
  have c: "fst (handleSend ch st api ida ta idb tb) =
           \<lparr>inputValue = [], typingTimeoutRef = False, isThinking = False\<rparr>"
    using assms(1,2) g
    by (simp add: handleSend_def handleSendWith_def Let_def split_def)
  show ?thesis unfolding a n using u c by simp
qed

text \<open>
  C9. The failing input: the user sends \<open>@AI what is up?\<close> with white space around it,
  and the call of the assistant throws. The service resolves with its apology text, the
  \<open>catch\<close> branch of the composer does not run, and the log gets the user's message and
  one message of kind AI from Gemini with the apology text. No message of kind SYSTEM is
  appended.
\<close>

theorem C9_api_failure_sent_as_AI:
  "trim (inputValue askingChat) = ''@AI what is up?''
   \<and> invokesAI (trim (inputValue askingChat))
   \<and> failingApi (promptOf (trim (inputValue askingChat)) (messages guestRoom)) = Inl (ApiError ''fetch failed'')
   \<and> generateAIResponse failingApi (trim (inputValue askingChat)) (messages guestRoom)
       = Inr (''Sorry, I'' @ [CHR 0x27] @ ''m having trouble connecting to the AI right now.'')
   \<and> messages guestRoom = []
   \<and> map m_type (messages (fst (snd (handleSend askingChat guestRoom failingApi ''id-1'' 1 ''id-2'' 2))))
       = [USER, AI]
   \<and> map m_senderName (messages (fst (snd (handleSend askingChat guestRoom failingApi ''id-1'' 1 ''id-2'' 2))))
       = [''User cccc'', ''Gemini'']
   \<and> map m_text (messages (fst (snd (handleSend askingChat guestRoom failingApi ''id-1'' 1 ''id-2'' 2))))
       = [''@AI what is up?'', ''Sorry, I'' @ [CHR 0x27] @ ''m having trouble connecting to the AI right now.'']
   \<and> filter (\<lambda>m. m_type m = SYSTEM)
        (messages (fst (snd (handleSend askingChat guestRoom failingApi ''id-1'' 1 ''id-2'' 2)))) = []"
proof -
  have t: "trim (inputValue askingChat) = ''@AI what is up?''"
    by (simp add: askingChat_def trim_def isSpace_def)
  have i: "invokesAI ''@AI what is up?''"
    by code_simp
  have g: "generateAIResponse failingApi ''@AI what is up?'' [] = Inr apologyText"
    by (simp add: generateAIResponse_def failingApi_def)
  have m: "messages guestRoom = []" by (simp add: guestRoom_def)
  have p: "peerId guestRoom = ''cccc-3''" "participants guestRoom =
        [\<lparr>p_id = ''cccc-3'', p_name = ''User cccc'', p_role = GUEST, p_isHost = False\<rparr>,
         \<lparr>p_id = ''gemini-chat-host-ROOM01'', p_name = ''Host'', p_role = HOST, p_isHost = True\<rparr>]"
    by (simp_all add: guestRoom_def)
  show ?thesis
    using i by (simp add: t m g p apologyText_def failingApi_def handleSend_def handleSendWith_def Let_def split_def
        handleTyping_def sendMessage_def newMessage_def)
qed

text \<open>
  C10. The failing input: a guest of the Host is typing when its link closes. The close
  handler of the Host removes the guest from the registry and the directory and leaves
  it in the typing set. On a guest the close handler removes the closed peer from the
  typing set.
\<close>

theorem C10_host_keeps_typing_after_close:
  "amHost moderatedRoom
   \<and> ''cccc-3'' \<in> typingUsers (fst (run moderatedRoom [Data Serving connC (TYPING ''cccc-3'' True)]))
   \<and> ''cccc-3'' \<in> typingUsers (fst (run moderatedRoom
         [Data Serving connC (TYPING ''cccc-3'' True), Close Serving connC]))
   \<and> \<not> list_ex (\<lambda>kc. fst kc = ''cccc-3'') (connectionsRef (fst (run moderatedRoom
         [Data Serving connC (TYPING ''cccc-3'' True), Close Serving connC])))
   \<and> \<not> list_ex (\<lambda>p. p_id p = ''cccc-3'') (participants (fst (run moderatedRoom
         [Data Serving connC (TYPING ''cccc-3'' True), Close Serving connC])))
   \<and> \<not> amHost guestRoom
   \<and> c_peer hostConn \<in> typingUsers (fst (run guestRoom [Data Serving hostConn (TYPING (c_peer hostConn) True)]))
   \<and> c_peer hostConn \<notin> typingUsers (fst (run guestRoom
         [Data Serving hostConn (TYPING (c_peer hostConn) True), Close Serving hostConn]))"
  by (simp add: ex_defs connC_def hostConn_def guestRoom_def)


end
